theory Spec2Isabelle
  imports Complex_Main "HOL-Library.Char_ord" "HOL-Library.List_Lexorder"
begin

section \<open>The multi-query planner allocator of the OMPL interface\<close>

text \<open>
  A shallow embedding of \<^verbatim>\<open>MultiQueryPlannerAllocator\<close> from
  \<^verbatim>\<open>moveit/ompl_interface/planning_context_manager.h\<close>. The allocator hands out OMPL
  planner objects through shared pointers and keeps some of them in \<^verbatim>\<open>planners_\<close>; the
  model keeps the planner objects in an explicit heap, so that two pointers are the same
  instance exactly when they are the same address.
\<close>

subsection \<open>Errors\<close>

text \<open>
  The first two are what the allocator's code can raise: \<^verbatim>\<open>boost::bad_lexical_cast\<close>,
  thrown by \<^verbatim>\<open>boost::lexical_cast<bool>\<close> (the spec's \<^verbatim>\<open>InvalidOptionValue\<close>), and \<^verbatim>\<open>->\<close>
  applied to an empty \<^verbatim>\<open>PlannerPtr\<close>. The others are the spec's kinds of failed resolution.
\<close>

datatype error =
  Bad_lexical_cast
| Null_dereference
| UnknownConfiguration
| UnknownRepresentation
| NoSuitableRepresentation
| UnknownAlgorithm

subsection \<open>The library operations the allocator calls\<close>

text \<open>
  \<^verbatim>\<open>boost::lexical_cast<bool>\<close> is not part of the repository. Every operation below takes
  it as the parameter \<open>lexical_cast\<close>, of type \<open>string \<Rightarrow> bool option\<close>, where \<open>None\<close>
  stands for the exception \<^verbatim>\<open>bad_lexical_cast\<close>. For concrete inputs the conversion of
  Boost.LexicalCast is written out: the last character must be \<^verbatim>\<open>1\<close> or \<^verbatim>\<open>0\<close> and gives
  the value; before it there may be a sign (\<^verbatim>\<open>+\<close>, or \<^verbatim>\<open>-\<close> when the value is false)
  and then zeros only.
\<close>

definition boost_lexical_cast_bool :: "string \<Rightarrow> bool option" where
  "boost_lexical_cast_bool str =
     (if str = [] then None
      else
        let output = (last str = CHR ''1'') in
        if \<not> output \<and> last str \<noteq> CHR ''0'' then None
        else
          let start = butlast str;
              start = (if start \<noteq> [] \<and> (hd start = CHR ''+'' \<or> (hd start = CHR ''-'' \<and> \<not> output))
                       then tl start else start)
          in if list_all (\<lambda>c. c = CHR ''0'') start then Some output else None)"

text \<open>
  \<^verbatim>\<open>ompl::base::PlannerData\<close>: the exploration graph taken out of, or put into, a planner,
  together with the space information it belongs to. The graph is a list of vertices;
  \<^verbatim>\<open>PlannerData data(si)\<close> constructs the empty one.
\<close>

record PlannerData =
  pd_si :: nat
  pd_vertices :: "nat list"

definition new_PlannerData :: "nat \<Rightarrow> PlannerData" where
  "new_PlannerData si = \<lparr>pd_si = si, pd_vertices = []\<rparr>"

text \<open>
  \<^verbatim>\<open>ob::PlannerDataStorage::load(path, data)\<close>: the storage is the parameter \<open>files\<close>,
  giving for a path the graph that deserialises from it, or \<open>None\<close> when there is no
  readable file of the right format. A failed load prints an error and leaves \<open>data\<close>
  as it was constructed.
\<close>

definition storage_load :: "(string \<Rightarrow> nat list option) \<Rightarrow> string \<Rightarrow> PlannerData \<Rightarrow> PlannerData" where
  "storage_load files path data =
     (case files path of None \<Rightarrow> data | Some vs \<Rightarrow> data\<lparr>pd_vertices := vs\<rparr>)"

text \<open>
  An \<^verbatim>\<open>ompl::base::Planner\<close> object, with the part of its state that the allocator sets:
  the space information, the name, the key/value map last handed to
  \<^verbatim>\<open>params().setParams\<close>, whether a problem definition is attached, whether \<^verbatim>\<open>setup()\<close>
  has run, and the exploration graph it holds.
\<close>

record planner =
  space_information :: nat
  planner_name :: string
  set_params :: "string \<rightharpoonup> string"
  problem_definition :: bool
  is_setup :: bool
  roadmap :: "nat list"

text \<open>
  The template parameter \<^verbatim>\<open>T\<close>: the name its constructor gives a planner, and its
  instance of \<^verbatim>\<open>allocatePersistingPlanner<T>(data)\<close>. That function template is declared
  in \<^verbatim>\<open>moveit/ompl_interface/detail/persisting_prm_planners.h\<close>, which is not among the
  sources, so it is taken as it comes with \<^verbatim>\<open>T\<close>: from planner data it gives a planner,
  or null (\<open>None\<close>), which is what the allocator tests for.
\<close>

record planner_type =
  type_name :: string
  allocatePersistingPlanner :: "PlannerData \<Rightarrow> planner option"

text \<open>\<^verbatim>\<open>new T(si)\<close>\<close>

definition new_T :: "planner_type \<Rightarrow> nat \<Rightarrow> planner" where
  "new_T T si =
     \<lparr>space_information = si, planner_name = type_name T, set_params = Map.empty,
      problem_definition = False, is_setup = False, roadmap = []\<rparr>"

text \<open>
  Modelled from the spec: what \<^verbatim>\<open>allocatePersistingPlanner<T>(data)\<close> constructs, where it
  constructs a planner. The spec has the instance "pre-seeded with that data": the
  planner holds the graph of \<open>data\<close>.
\<close>

definition seeded_with :: "planner_type \<Rightarrow> PlannerData \<Rightarrow> bool" where
  "seeded_with T data =
     (case allocatePersistingPlanner T data of
        None \<Rightarrow> True
      | Some p \<Rightarrow> roadmap p = pd_vertices data)"

text \<open>
  Two planner types for concrete inputs: \<open>PRM\<close>, which is constructed from planner data,
  and \<open>RRT\<close>, which is not.
\<close>

definition PRM :: planner_type where
  "PRM = \<lparr>type_name = ''PRM'',
          allocatePersistingPlanner = (\<lambda>data. Some
            \<lparr>space_information = pd_si data, planner_name = ''PRM'', set_params = Map.empty,
             problem_definition = False, is_setup = False, roadmap = pd_vertices data\<rparr>)\<rparr>"

definition RRT :: planner_type where
  "RRT = \<lparr>type_name = ''RRT'', allocatePersistingPlanner = (\<lambda>data. None)\<rparr>"

subsection \<open>Pointers, maps and the allocator's state\<close>

datatype PlannerPtr = Null | Addr nat

text \<open>
  \<^verbatim>\<open>std::map<std::string, std::string>\<close> where the code iterates over it: an association
  list in key order. \<open>map_assign k v m\<close> is \<^verbatim>\<open>m[k] = v\<close>.
\<close>

fun map_assign :: "string \<Rightarrow> 'v \<Rightarrow> (string \<times> 'v) list \<Rightarrow> (string \<times> 'v) list" where
  "map_assign k v [] = [(k, v)]"
| "map_assign k v ((k', v') # es) =
     (if k' < k then (k', v') # map_assign k v es
      else if k' = k then (k, v) # es
      else (k, v) # (k', v') # es)"

text \<open>
  The heap of planner objects and the two members of the class, \<^verbatim>\<open>planners_\<close> and
  \<^verbatim>\<open>planner_data_storage_paths_\<close>; a name cannot end in an underscore here, so the members
  are written without it, as is \<^verbatim>\<open>config_\<close> below.
\<close>

record state =
  heap :: "planner list"
  planners :: "string \<rightharpoonup> PlannerPtr"
  planner_data_storage_paths :: "(string \<times> string) list"

text \<open>A default-constructed allocator.\<close>

definition MultiQueryPlannerAllocator :: state where
  "MultiQueryPlannerAllocator = \<lparr>heap = [], planners = Map.empty, planner_data_storage_paths = []\<rparr>"

text \<open>\<^verbatim>\<open>ModelBasedPlanningContextSpecification\<close>; the allocator reads \<^verbatim>\<open>config_\<close> only.\<close>

record ModelBasedPlanningContextSpecification =
  config :: "string \<rightharpoonup> string"

subsection \<open>\<^verbatim>\<open>allocatePlannerImpl\<close>\<close>

definition allocatePlannerImpl ::
  "(string \<Rightarrow> nat list option) \<Rightarrow> planner_type \<Rightarrow> nat \<Rightarrow> string \<Rightarrow> ModelBasedPlanningContextSpecification \<Rightarrow>
   bool \<Rightarrow> bool \<Rightarrow> string \<Rightarrow> state \<Rightarrow> PlannerPtr \<times> state" where
  "allocatePlannerImpl files T si new_name spec load_planner_data store_planner_data file_path s =
     (let planner = (if load_planner_data
                     then allocatePersistingPlanner T (storage_load files file_path (new_PlannerData si))
                     else None);
          planner = (case planner of None \<Rightarrow> new_T T si | Some p \<Rightarrow> p);
          planner = (if new_name \<noteq> [] then planner\<lparr>planner_name := new_name\<rparr> else planner);
          planner = planner\<lparr>set_params := config spec\<rparr>;
          planner = planner\<lparr>problem_definition := True\<rparr>;
          planner = planner\<lparr>is_setup := True\<rparr>;
          paths = (if store_planner_data
                   then map_assign new_name file_path (planner_data_storage_paths s)
                   else planner_data_storage_paths s)
      in (Addr (length (heap s)),
          s\<lparr>heap := heap s @ [planner], planner_data_storage_paths := paths\<rparr>))"

subsection \<open>\<^verbatim>\<open>allocatePlanner\<close>\<close>

text \<open>
  The pattern the source repeats for each boolean option: find the key in the working
  copy \<open>cfg\<close>; when it is there, convert its value and erase it from the copy.
\<close>

definition find_bool_erase ::
  "(string \<Rightarrow> bool option) \<Rightarrow> string \<Rightarrow> (string \<rightharpoonup> string) \<Rightarrow> error + (bool \<times> (string \<rightharpoonup> string))" where
  "find_bool_erase lexical_cast key cfg =
     (case cfg key of
        None \<Rightarrow> Inr (False, cfg)
      | Some v \<Rightarrow>
          (case lexical_cast v of
             None \<Rightarrow> Inl Bad_lexical_cast
           | Some b \<Rightarrow> Inr (b, cfg(key := None))))"

definition find_string_erase :: "string \<Rightarrow> (string \<rightharpoonup> string) \<Rightarrow> string \<times> (string \<rightharpoonup> string)" where
  "find_string_erase key cfg =
     (case cfg key of None \<Rightarrow> ([], cfg) | Some v \<Rightarrow> (v, cfg(key := None)))"

definition allocatePlanner ::
  "(string \<Rightarrow> bool option) \<Rightarrow> (string \<Rightarrow> nat list option) \<Rightarrow> planner_type \<Rightarrow> nat \<Rightarrow> string \<Rightarrow>
   ModelBasedPlanningContextSpecification \<Rightarrow> state \<Rightarrow> error + (PlannerPtr \<times> state)" where
  "allocatePlanner lexical_cast files T si new_name spec s =
     (let cfg = config spec in
      case find_bool_erase lexical_cast ''multi_query_planning_enabled'' cfg of
        Inl e \<Rightarrow> Inl e
      | Inr (multi_query_planning_enabled, cfg) \<Rightarrow>
          if multi_query_planning_enabled then
            (case planners s new_name of
               Some p \<Rightarrow> Inr (p, s)
             | None \<Rightarrow>
                 (case find_bool_erase lexical_cast ''load_planner_data'' cfg of
                    Inl e \<Rightarrow> Inl e
                  | Inr (load_planner_data, cfg) \<Rightarrow>
                      (case find_bool_erase lexical_cast ''store_planner_data'' cfg of
                         Inl e \<Rightarrow> Inl e
                       | Inr (store_planner_data, cfg) \<Rightarrow>
                           let (planner_data_path, cfg) = find_string_erase ''planner_data_path'' cfg;
                               (p, s') = allocatePlannerImpl files T si new_name spec
                                           load_planner_data store_planner_data planner_data_path s
                           in Inr (p, s'\<lparr>planners := (planners s')(new_name \<mapsto> p)\<rparr>))))
          else Inr (allocatePlannerImpl files T si new_name spec False False [] s))"

subsection \<open>The destructor\<close>

text \<open>
  \<^verbatim>\<open>ob::PlannerDataStorage::store(data, path)\<close> is the parameter \<open>store\<close>; it reports a
  failure (an invalid path, a failed write) by printing an error and returning, so its
  result is whether the data was written. The destructor's effect is the list of the
  store operations it performs, in order.
\<close>

record store_call =
  stored_data :: PlannerData
  stored_path :: string
  stored_ok :: bool

text \<open>
  \<^verbatim>\<open>planners_[name]->\<close>: \<^verbatim>\<open>operator[]\<close> gives an empty pointer for a name that has no
  entry, and following an empty pointer ends the program. Shared pointers do not dangle;
  an address outside the heap is treated like the empty pointer.
\<close>

definition deref :: "state \<Rightarrow> string \<Rightarrow> error + planner" where
  "deref s name =
     (case planners s name of
        Some (Addr a) \<Rightarrow> if a < length (heap s) then Inr (heap s ! a) else Inl Null_dereference
      | _ \<Rightarrow> Inl Null_dereference)"

fun store_entries ::
  "(PlannerData \<Rightarrow> string \<Rightarrow> bool) \<Rightarrow> state \<Rightarrow> (string \<times> string) list \<Rightarrow> error + store_call list" where
  "store_entries store s [] = Inr []"
| "store_entries store s ((name, path) # entries) =
     (case deref s name of
        Inl e \<Rightarrow> Inl e
      | Inr pl \<Rightarrow>
          let data = new_PlannerData (space_information pl);
              data = data\<lparr>pd_vertices := roadmap pl\<rparr>;
              ok = store data path
          in (case store_entries store s entries of
                Inl e \<Rightarrow> Inl e
              | Inr done \<Rightarrow> Inr (\<lparr>stored_data = data, stored_path = path, stored_ok = ok\<rparr> # done)))"

definition destructor :: "(PlannerData \<Rightarrow> string \<Rightarrow> bool) \<Rightarrow> state \<Rightarrow> error + store_call list" where
  "destructor store s = store_entries store s (planner_data_storage_paths s)"

subsection \<open>Sequences of calls\<close>

text \<open>
  One call of \<^verbatim>\<open>allocatePlanner\<close> with its arguments and the storage as the call finds
  it. A call that throws leaves the allocator as it was: the conversions come before
  every assignment to a member.
\<close>

record request =
  req_files :: "string \<Rightarrow> nat list option"
  req_type :: planner_type
  req_si :: nat
  req_name :: string
  req_spec :: ModelBasedPlanningContextSpecification

definition call :: "(string \<Rightarrow> bool option) \<Rightarrow> request \<Rightarrow> state \<Rightarrow> state" where
  "call lexical_cast r s =
     (case allocatePlanner lexical_cast (req_files r) (req_type r) (req_si r) (req_name r) (req_spec r) s of
        Inl e \<Rightarrow> s
      | Inr (p, s') \<Rightarrow> s')"

fun calls :: "(string \<Rightarrow> bool option) \<Rightarrow> request list \<Rightarrow> state \<Rightarrow> state" where
  "calls lexical_cast [] s = s"
| "calls lexical_cast (r # rs) s = calls lexical_cast rs (call lexical_cast r s)"

subsection \<open>Conditions on a call\<close>

text \<open>
  What the value of \<^verbatim>\<open>multi_query_planning_enabled\<close> is for a configuration: enabled when
  the option is there and converts to true, disabled when it is absent or converts to
  false. \<open>parsable\<close> says that an option, where present, converts; \<open>option_is_true\<close>
  is the value the code gives a boolean option that converts.
\<close>

definition multi_query_enabled ::
  "(string \<Rightarrow> bool option) \<Rightarrow> ModelBasedPlanningContextSpecification \<Rightarrow> bool" where
  "multi_query_enabled lexical_cast spec =
     (case config spec ''multi_query_planning_enabled'' of
        None \<Rightarrow> False
      | Some v \<Rightarrow> lexical_cast v = Some True)"

definition multi_query_disabled ::
  "(string \<Rightarrow> bool option) \<Rightarrow> ModelBasedPlanningContextSpecification \<Rightarrow> bool" where
  "multi_query_disabled lexical_cast spec =
     (case config spec ''multi_query_planning_enabled'' of
        None \<Rightarrow> True
      | Some v \<Rightarrow> lexical_cast v = Some False)"

definition parsable ::
  "(string \<Rightarrow> bool option) \<Rightarrow> ModelBasedPlanningContextSpecification \<Rightarrow> string \<Rightarrow> bool" where
  "parsable lexical_cast spec key =
     (case config spec key of None \<Rightarrow> True | Some v \<Rightarrow> lexical_cast v \<noteq> None)"

definition option_is_true ::
  "(string \<Rightarrow> bool option) \<Rightarrow> ModelBasedPlanningContextSpecification \<Rightarrow> string \<Rightarrow> bool" where
  "option_is_true lexical_cast spec key =
     (case config spec key of None \<Rightarrow> False | Some v \<Rightarrow> lexical_cast v = Some True)"

definition planner_data_path :: "ModelBasedPlanningContextSpecification \<Rightarrow> string" where
  "planner_data_path spec = (case config spec ''planner_data_path'' of None \<Rightarrow> [] | Some path \<Rightarrow> path)"

text \<open>The planner object that \<open>allocatePlannerImpl\<close> puts on the heap, as one term.\<close>

definition built ::
  "(string \<Rightarrow> nat list option) \<Rightarrow> planner_type \<Rightarrow> nat \<Rightarrow> string \<Rightarrow>
   ModelBasedPlanningContextSpecification \<Rightarrow> bool \<Rightarrow> string \<Rightarrow> planner" where
  "built files T si new_name spec load_planner_data file_path =
     (let planner = (case (if load_planner_data
                           then allocatePersistingPlanner T (storage_load files file_path (new_PlannerData si))
                           else None) of None \<Rightarrow> new_T T si | Some p \<Rightarrow> p)
      in (if new_name \<noteq> [] then planner\<lparr>planner_name := new_name\<rparr> else planner)
           \<lparr>set_params := config spec, problem_definition := True, is_setup := True\<rparr>)"

text \<open>
  The invariant of the allocator's state: every pointer in \<^verbatim>\<open>planners_\<close> is the address of
  a planner on the heap that has been set up, and every name with a storage path has an
  entry in \<^verbatim>\<open>planners_\<close>.
\<close>

definition consistent :: "state \<Rightarrow> bool" where
  "consistent s \<longleftrightarrow>
     (\<forall>name p. planners s name = Some p \<longrightarrow>
        (\<exists>a. p = Addr a \<and> a < length (heap s) \<and> is_setup (heap s ! a)))
   \<and> (\<forall>entry \<in> set (planner_data_storage_paths s). planners s (fst entry) \<noteq> None)"

section \<open>The planning context manager\<close>

text \<open>
  The header declares \<^verbatim>\<open>PlanningContextManager\<close> with its members; the bodies of
  \<^verbatim>\<open>getPlanningContext\<close> and \<^verbatim>\<open>setPlannerConfigurations\<close> are in a file that is not
  among the sources. The members below are the header's; the two operations follow the
  spec.
\<close>

text \<open>\<^verbatim>\<open>planning_interface::PlannerConfigurationSettings\<close>: group, name and options.\<close>

record PlannerConfigurationSettings =
  settings_group :: string
  settings_name :: string
  settings_config :: "string \<rightharpoonup> string"

text \<open>The resource limits, which the header keeps as members with a setter each.\<close>

record resource_limits =
  max_goal_samples :: nat
  max_state_sampling_attempts :: nat
  max_goal_sampling_attempts :: nat
  max_planning_threads :: nat
  max_solution_segment_length :: real
  minimum_waypoint_count :: nat

text \<open>
  A planning context as the spec's data model has it: owning group, resolved configuration
  name, resolved representation, allocated algorithm instance, resource limits.
\<close>

record PlanningContext =
  context_group :: string
  context_config :: string
  context_representation :: string
  context_planner :: PlannerPtr
  context_limits :: resource_limits

text \<open>
  The manager: the registry of planner allocators by identifier, the configurations, the
  limits, the allocator, and the cache. Contexts live on a heap of their own and the
  cache maps a key (group, configuration name, representation type) to an address, so
  that identity of contexts is equality of addresses.
\<close>

record PlanningContextManager =
  known_planners :: "string \<rightharpoonup> planner_type"
  planner_configs :: "string \<rightharpoonup> PlannerConfigurationSettings"
  limits :: resource_limits
  planner_allocator :: state
  contexts :: "PlanningContext list"
  cached_contexts :: "(string \<times> string \<times> string) \<rightharpoonup> nat"

text \<open>
  Modelled from the spec: \<^verbatim>\<open>PlanningContextManager::setPlannerConfigurations\<close>, whose body
  is not among the sources. It "replaces the entire configuration set atomically and
  invalidates the PlanningContextCache".
\<close>

definition setPlannerConfigurations ::
  "(string \<rightharpoonup> PlannerConfigurationSettings) \<Rightarrow> PlanningContextManager \<Rightarrow> PlanningContextManager" where
  "setPlannerConfigurations pconfig m = m\<lparr>planner_configs := pconfig, cached_contexts := Map.empty\<rparr>"

text \<open>
  Modelled from the spec: \<^verbatim>\<open>PlanningContextManager::getPlanningContext(config, factory_type)\<close>,
  whose body is not among the sources. The configuration is looked up by name; the
  representation is resolved by the selection policy, which reads the registry of
  factories only and is the parameter \<open>select\<close> (group and type hint to representation
  type, or the failure); the cache key is (group, configuration name, representation
  type). On a hit the cached context is returned unchanged. On a miss the allocator of
  the planner identifier named in the options (\<^verbatim>\<open>type\<close>) is looked up, the algorithm is
  allocated from the multi-query allocator with the resolved options, and the context is
  assembled with the limits currently set, inserted in the cache and returned. A failure
  leaves nothing cached.
\<close>

definition getPlanningContext ::
  "(string \<Rightarrow> bool option) \<Rightarrow> (string \<Rightarrow> nat list option) \<Rightarrow> (string \<Rightarrow> string \<Rightarrow> error + string) \<Rightarrow>
   PlanningContextManager \<Rightarrow> string \<Rightarrow> string \<Rightarrow> error + (nat \<times> PlanningContextManager)" where
  "getPlanningContext lexical_cast files select m config_name factory_type =
     (case planner_configs m config_name of
        None \<Rightarrow> Inl UnknownConfiguration
      | Some pc \<Rightarrow>
          (case select (settings_group pc) factory_type of
             Inl e \<Rightarrow> Inl e
           | Inr rep_type \<Rightarrow>
               (case cached_contexts m (settings_group pc, config_name, rep_type) of
                  Some c \<Rightarrow> Inr (c, m)
                | None \<Rightarrow>
                    (case settings_config pc ''type'' of
                       None \<Rightarrow> Inl UnknownAlgorithm
                     | Some planner_id \<Rightarrow>
                         (case known_planners m planner_id of
                            None \<Rightarrow> Inl UnknownAlgorithm
                          | Some T \<Rightarrow>
                              (case allocatePlanner lexical_cast files T (length (contexts m)) config_name
                                      \<lparr>config = settings_config pc\<rparr> (planner_allocator m) of
                                 Inl e \<Rightarrow> Inl e
                               | Inr (p, a) \<Rightarrow>
                                   Inr (length (contexts m),
                                        m\<lparr>planner_allocator := a,
                                          contexts := contexts m @
                                            [\<lparr>context_group = settings_group pc,
                                              context_config = config_name,
                                              context_representation = rep_type,
                                              context_planner = p,
                                              context_limits = limits m\<rparr>],
                                          cached_contexts := (cached_contexts m)
                                            ((settings_group pc, config_name, rep_type) \<mapsto>
                                               length (contexts m))\<rparr>)))))))"

text \<open>
  Every address in the cache is the address of a context on the heap. The operations keep
  this.
\<close>

definition cache_valid :: "PlanningContextManager \<Rightarrow> bool" where
  "cache_valid m \<longleftrightarrow> (\<forall>key c. cached_contexts m key = Some c \<longrightarrow> c < length (contexts m))"

text \<open>
  A manager for concrete inputs: one configuration for the group \<^verbatim>\<open>arm\<close>, one registered
  planner, nothing cached.
\<close>

definition arm_manager :: PlanningContextManager where
  "arm_manager =
     \<lparr>known_planners = [''geometric::RRT'' \<mapsto> RRT],
      planner_configs = [''arm[rrt_fast]'' \<mapsto>
         \<lparr>settings_group = ''arm'', settings_name = ''arm[rrt_fast]'',
          settings_config = [''type'' \<mapsto> ''geometric::RRT'', ''multi_query_planning_enabled'' \<mapsto> ''1'']\<rparr>],
      limits = \<lparr>max_goal_samples = 10, max_state_sampling_attempts = 4, max_goal_sampling_attempts = 1000,
                max_planning_threads = 4, max_solution_segment_length = 0, minimum_waypoint_count = 2\<rparr>,
      planner_allocator = MultiQueryPlannerAllocator, contexts = [], cached_contexts = Map.empty\<rparr>"

section \<open>Properties of the allocator\<close>

subsection \<open>What one call does\<close>

lemma allocatePlannerImpl_result:
  "allocatePlannerImpl files T si new_name spec load_planner_data store_planner_data file_path s =
      (Addr (length (heap s)),
       s\<lparr>heap := heap s @ [built files T si new_name spec load_planner_data file_path],
         planner_data_storage_paths :=
           (if store_planner_data then map_assign new_name file_path (planner_data_storage_paths s)
            else planner_data_storage_paths s)\<rparr>)"
  by (simp add: allocatePlannerImpl_def built_def Let_def)

lemma built_is_setup [simp]: "is_setup (built files T si new_name spec l path)"
  and built_problem_definition [simp]: "problem_definition (built files T si new_name spec l path)"
  and built_set_params [simp]: "set_params (built files T si new_name spec l path) = config spec"
  by (simp_all add: built_def Let_def)

lemma built_roadmap:
  "roadmap (built files T si new_name spec l path) =
     (if l then (case allocatePersistingPlanner T (storage_load files path (new_PlannerData si)) of
                   None \<Rightarrow> []
                 | Some p \<Rightarrow> roadmap p)
      else [])"
  by (simp add: built_def Let_def new_T_def split: option.splits)

lemma failed_load: "files path = None \<Longrightarrow> storage_load files path data = data"
  by (simp add: storage_load_def)

lemma allocatePlanner_disabled:
  assumes "multi_query_disabled lexical_cast spec"
  shows "allocatePlanner lexical_cast files T si new_name spec s =
           Inr (allocatePlannerImpl files T si new_name spec False False [] s)"
  using assms
  by (auto simp: allocatePlanner_def multi_query_disabled_def find_bool_erase_def split: option.splits)

lemma allocatePlanner_cached:
  assumes "multi_query_enabled lexical_cast spec" and "planners s new_name = Some p"
  shows "allocatePlanner lexical_cast files T si new_name spec s = Inr (p, s)"
  using assms
  by (auto simp: allocatePlanner_def multi_query_enabled_def find_bool_erase_def split: option.splits)

lemma allocatePlanner_cases:
  assumes "allocatePlanner lexical_cast files T si new_name spec s = Inr (p, s')"
  shows "(multi_query_enabled lexical_cast spec \<and> planners s new_name = Some p \<and> s' = s)
       \<or> (\<exists>l st path s1. multi_query_enabled lexical_cast spec \<and> planners s new_name = None
              \<and> allocatePlannerImpl files T si new_name spec l st path s = (p, s1)
              \<and> s' = s1\<lparr>planners := (planners s1)(new_name \<mapsto> p)\<rparr>)
       \<or> (multi_query_disabled lexical_cast spec
              \<and> allocatePlannerImpl files T si new_name spec False False [] s = (p, s'))"
proof (cases "multi_query_disabled lexical_cast spec")
  case True
  then show ?thesis using assms by (simp add: allocatePlanner_disabled)
next
  case False
  then have en: "multi_query_enabled lexical_cast spec"
    using assms
    by (auto simp: multi_query_enabled_def multi_query_disabled_def allocatePlanner_def
        find_bool_erase_def split: option.splits)
  show ?thesis
  proof (cases "planners s new_name")
    case None
    then show ?thesis
      using assms en
      by (auto simp: allocatePlanner_def multi_query_enabled_def find_bool_erase_def Let_def
          split: option.splits sum.splits prod.splits)
  next
    case (Some q)
    then show ?thesis using assms en by (simp add: allocatePlanner_cached)
  qed
qed

lemma find_bool_erase_parsable:
  assumes "cfg key = config spec key" and "parsable lexical_cast spec key"
  shows "find_bool_erase lexical_cast key cfg = Inr (option_is_true lexical_cast spec key, cfg(key := None))"
proof (cases "config spec key")
  case None
  with assms(1) have "cfg(key := None) = cfg" by (simp add: fun_upd_idem)
  with None assms(1) show ?thesis
    by (simp add: find_bool_erase_def option_is_true_def)
next
  case (Some v)
  with assms(2) obtain b where "lexical_cast v = Some b"
    by (auto simp: parsable_def)
  with Some assms(1) show ?thesis
    by (simp add: find_bool_erase_def option_is_true_def)
qed

lemma find_bool_erase_unparsable:
  assumes "cfg key = config spec key" and "\<not> parsable lexical_cast spec key"
  shows "find_bool_erase lexical_cast key cfg = Inl Bad_lexical_cast"
  using assms
  by (cases "config spec key") (simp_all add: find_bool_erase_def parsable_def)

lemma find_string_erase_path:
  assumes "cfg ''planner_data_path'' = config spec ''planner_data_path''"
  shows "fst (find_string_erase ''planner_data_path'' cfg) = planner_data_path spec"
  using assms
  by (cases "config spec ''planner_data_path''") (simp_all add: find_string_erase_def planner_data_path_def)

lemma enabled_is_true:
  "multi_query_enabled lexical_cast spec = option_is_true lexical_cast spec ''multi_query_planning_enabled''"
  by (simp add: multi_query_enabled_def option_is_true_def)

lemma enabled_parsable:
  "multi_query_enabled lexical_cast spec \<Longrightarrow> parsable lexical_cast spec ''multi_query_planning_enabled''"
  and disabled_parsable:
  "multi_query_disabled lexical_cast spec \<Longrightarrow> parsable lexical_cast spec ''multi_query_planning_enabled''"
  and disabled_not_enabled:
  "multi_query_disabled lexical_cast spec \<Longrightarrow> \<not> multi_query_enabled lexical_cast spec"
  by (auto simp: parsable_def multi_query_disabled_def multi_query_enabled_def split: option.splits)

lemma allocatePlanner_enabled:
  assumes "multi_query_enabled lexical_cast spec"
  shows "allocatePlanner lexical_cast files T si new_name spec s =
     (case planners s new_name of
        Some p \<Rightarrow> Inr (p, s)
      | None \<Rightarrow>
          (case find_bool_erase lexical_cast ''load_planner_data''
                  ((config spec)(''multi_query_planning_enabled'' := None)) of
             Inl e \<Rightarrow> Inl e
           | Inr (load_planner_data, cfg) \<Rightarrow>
               (case find_bool_erase lexical_cast ''store_planner_data'' cfg of
                  Inl e \<Rightarrow> Inl e
                | Inr (store_planner_data, cfg) \<Rightarrow>
                    let (path, cfg) = find_string_erase ''planner_data_path'' cfg;
                        (p, s') = allocatePlannerImpl files T si new_name spec
                                    load_planner_data store_planner_data path s
                    in Inr (p, s'\<lparr>planners := (planners s')(new_name \<mapsto> p)\<rparr>))))"
proof -
  have "find_bool_erase lexical_cast ''multi_query_planning_enabled'' (config spec) =
          Inr (True, (config spec)(''multi_query_planning_enabled'' := None))"
    using find_bool_erase_parsable [of "config spec" "''multi_query_planning_enabled''" spec lexical_cast]
      enabled_parsable [OF assms] assms
    by (simp add: enabled_is_true)
  then show ?thesis
    by (simp add: allocatePlanner_def)
qed

lemma allocatePlanner_fresh:
  assumes "multi_query_enabled lexical_cast spec" and "planners s new_name = None"
    and "parsable lexical_cast spec ''load_planner_data''"
    and "parsable lexical_cast spec ''store_planner_data''"
  shows "allocatePlanner lexical_cast files T si new_name spec s =
     Inr (Addr (length (heap s)),
          s\<lparr>heap := heap s @ [built files T si new_name spec
                                 (option_is_true lexical_cast spec ''load_planner_data'')
                                 (planner_data_path spec)],
            planner_data_storage_paths :=
              (if option_is_true lexical_cast spec ''store_planner_data''
               then map_assign new_name (planner_data_path spec) (planner_data_storage_paths s)
               else planner_data_storage_paths s),
            planners := (planners s)(new_name \<mapsto> Addr (length (heap s)))\<rparr>)"
proof -
  let ?cfg1 = "(config spec)(''multi_query_planning_enabled'' := None)"
  let ?cfg2 = "?cfg1(''load_planner_data'' := None)"
  let ?cfg3 = "?cfg2(''store_planner_data'' := None)"
  have load: "find_bool_erase lexical_cast ''load_planner_data'' ?cfg1 =
      Inr (option_is_true lexical_cast spec ''load_planner_data'', ?cfg2)"
    by (rule find_bool_erase_parsable [OF _ assms(3)]) simp
  have store: "find_bool_erase lexical_cast ''store_planner_data'' ?cfg2 =
      Inr (option_is_true lexical_cast spec ''store_planner_data'', ?cfg3)"
    by (rule find_bool_erase_parsable [OF _ assms(4)]) simp
  have path: "fst (find_string_erase ''planner_data_path'' ?cfg3) = planner_data_path spec"
    by (rule find_string_erase_path) simp
  show ?thesis
    by (simp add: allocatePlanner_enabled [OF assms(1)] assms(2) load store path
        allocatePlannerImpl_result split_beta)
qed

lemma flag_cases:
  "\<not> parsable lexical_cast spec ''multi_query_planning_enabled''
   \<or> multi_query_disabled lexical_cast spec \<or> multi_query_enabled lexical_cast spec"
  by (auto simp: parsable_def multi_query_disabled_def multi_query_enabled_def split: option.splits)

lemma allocatePlanner_bad_flag:
  assumes "\<not> parsable lexical_cast spec ''multi_query_planning_enabled''"
  shows "allocatePlanner lexical_cast files T si new_name spec s = Inl Bad_lexical_cast"
  using assms
  by (auto simp: allocatePlanner_def parsable_def find_bool_erase_def split: option.splits)

lemma allocatePlanner_bad_option:
  assumes "multi_query_enabled lexical_cast spec" and "planners s new_name = None"
    and "\<not> parsable lexical_cast spec ''load_planner_data''
         \<or> \<not> parsable lexical_cast spec ''store_planner_data''"
  shows "allocatePlanner lexical_cast files T si new_name spec s = Inl Bad_lexical_cast"
proof (cases "parsable lexical_cast spec ''load_planner_data''")
  case False
  have "find_bool_erase lexical_cast ''load_planner_data''
          ((config spec)(''multi_query_planning_enabled'' := None)) = Inl Bad_lexical_cast"
    by (rule find_bool_erase_unparsable [OF _ False]) simp
  then show ?thesis
    by (simp add: allocatePlanner_enabled [OF assms(1)] assms(2))
next
  case True
  let ?cfg1 = "(config spec)(''multi_query_planning_enabled'' := None)"
  have load: "find_bool_erase lexical_cast ''load_planner_data'' ?cfg1 =
      Inr (option_is_true lexical_cast spec ''load_planner_data'', ?cfg1(''load_planner_data'' := None))"
    by (rule find_bool_erase_parsable [OF _ True]) simp
  from True assms(3) have "\<not> parsable lexical_cast spec ''store_planner_data''" by simp
  then have "find_bool_erase lexical_cast ''store_planner_data'' (?cfg1(''load_planner_data'' := None))
      = Inl Bad_lexical_cast"
    by (rule find_bool_erase_unparsable [rotated]) simp
  with load show ?thesis
    by (simp add: allocatePlanner_enabled [OF assms(1)] assms(2))
qed

lemma call_keeps_entry:
  assumes "planners s name = Some p"
  shows "planners (call lexical_cast r s) name = Some p"
proof (cases "allocatePlanner lexical_cast (req_files r) (req_type r) (req_si r) (req_name r) (req_spec r) s")
  case (Inl e)
  then show ?thesis using assms by (simp add: call_def)
next
  case (Inr result)
  obtain q s' where result: "result = (q, s')" by (cases result)
  from allocatePlanner_cases [OF Inr [unfolded result]] assms
  have "planners s' name = Some p"
    by (auto simp: allocatePlannerImpl_result)
  then show ?thesis using Inr result by (simp add: call_def)
qed

lemmas evaluate = allocatePlanner_def allocatePlannerImpl_def find_bool_erase_def find_string_erase_def
  MultiQueryPlannerAllocator_def boost_lexical_cast_bool_def multi_query_enabled_def
  multi_query_disabled_def parsable_def option_is_true_def planner_data_path_def PRM_def RRT_def
  storage_load_def new_PlannerData_def new_T_def call_def Let_def

subsection \<open>Reuse of a multi-query planner\<close>

text \<open>
  C1. When a call of \<open>allocatePlanner\<close> for a name with multi-query planning enabled has
  returned an instance, a second call for that name with multi-query planning enabled
  returns the same pointer and leaves the whole state as it is, whatever the other
  options, the planner type, the space information and the stored files of the second
  call are.
\<close>

theorem second_call_returns_cached_instance:
  assumes "multi_query_enabled lexical_cast spec1"
    and "multi_query_enabled lexical_cast spec2"
    and "allocatePlanner lexical_cast files1 T1 si1 name spec1 s = Inr (p, s1)"
  shows "allocatePlanner lexical_cast files2 T2 si2 name spec2 s1 = Inr (p, s1)"
proof -
  have "planners s1 name = Some p"
    using allocatePlanner_cases [OF assms(3)] assms(1)
    by (auto simp: multi_query_enabled_def multi_query_disabled_def allocatePlannerImpl_result
        split: option.splits)
  with assms(2) show ?thesis
    by (simp add: allocatePlanner_cached)
qed

theorem second_call_returns_cached_instance_witness:
  "multi_query_enabled boost_lexical_cast_bool
      \<lparr>config = [''multi_query_planning_enabled'' \<mapsto> ''1'', ''store_planner_data'' \<mapsto> ''1'',
                 ''planner_data_path'' \<mapsto> ''/tmp/rrt_fast.dat'']\<rparr>
   \<and> multi_query_enabled boost_lexical_cast_bool
      \<lparr>config = [''multi_query_planning_enabled'' \<mapsto> ''1'', ''load_planner_data'' \<mapsto> ''maybe'',
                 ''range'' \<mapsto> ''0.5'']\<rparr>
   \<and> (\<exists>s1. allocatePlanner boost_lexical_cast_bool Map.empty RRT 0
               ''arm[rrt_fast]''
               \<lparr>config = [''multi_query_planning_enabled'' \<mapsto> ''1'', ''store_planner_data'' \<mapsto> ''1'',
                          ''planner_data_path'' \<mapsto> ''/tmp/rrt_fast.dat'']\<rparr>
               MultiQueryPlannerAllocator = Inr (Addr 0, s1)
           \<and> allocatePlanner boost_lexical_cast_bool Map.empty PRM 1
               ''arm[rrt_fast]''
               \<lparr>config = [''multi_query_planning_enabled'' \<mapsto> ''1'', ''load_planner_data'' \<mapsto> ''maybe'',
                          ''range'' \<mapsto> ''0.5'']\<rparr>
               s1 = Inr (Addr 0, s1))"
proof -
  let ?spec1 = "\<lparr>config = [''multi_query_planning_enabled'' \<mapsto> ''1'', ''store_planner_data'' \<mapsto> ''1'',
                          ''planner_data_path'' \<mapsto> ''/tmp/rrt_fast.dat'']\<rparr>"
  let ?spec2 = "\<lparr>config = [''multi_query_planning_enabled'' \<mapsto> ''1'', ''load_planner_data'' \<mapsto> ''maybe'',
                          ''range'' \<mapsto> ''0.5'']\<rparr>"
  have h1: "multi_query_enabled boost_lexical_cast_bool ?spec1"
    by (simp add: multi_query_enabled_def boost_lexical_cast_bool_def)
  have h2: "multi_query_enabled boost_lexical_cast_bool ?spec2"
    by (simp add: multi_query_enabled_def boost_lexical_cast_bool_def)
  obtain s1 where first:
    "allocatePlanner boost_lexical_cast_bool Map.empty RRT 0
       ''arm[rrt_fast]'' ?spec1 MultiQueryPlannerAllocator = Inr (Addr 0, s1)"
    by (simp add: evaluate)
  from second_call_returns_cached_instance [OF h1 h2 first] h1 h2 first
  show ?thesis by blast
qed

subsection \<open>Single-shot planners\<close>

text \<open>
  C3. With \<^verbatim>\<open>multi_query_planning_enabled\<close> absent or false, a call of \<open>allocatePlanner\<close>
  succeeds and returns the address of a planner newly put on the heap; a second such call
  returns a different address; and neither call changes \<^verbatim>\<open>planners_\<close> or
  \<^verbatim>\<open>planner_data_storage_paths_\<close>.
\<close>

theorem single_shot_calls_return_fresh_instances:
  assumes "multi_query_disabled lexical_cast spec1"
    and "multi_query_disabled lexical_cast spec2"
  shows "\<exists>p1 s1 p2 s2.
           allocatePlanner lexical_cast files1 T1 si1 name spec1 s = Inr (p1, s1)
         \<and> allocatePlanner lexical_cast files2 T2 si2 name spec2 s1 = Inr (p2, s2)
         \<and> p1 = Addr (length (heap s)) \<and> p2 = Addr (length (heap s1)) \<and> p1 \<noteq> p2
         \<and> length (heap s1) = Suc (length (heap s)) \<and> take (length (heap s)) (heap s1) = heap s
         \<and> planners s1 = planners s
         \<and> planner_data_storage_paths s1 = planner_data_storage_paths s
         \<and> planners s2 = planners s1
         \<and> planner_data_storage_paths s2 = planner_data_storage_paths s1"
  by (simp add: allocatePlanner_disabled [OF assms(1)] allocatePlanner_disabled [OF assms(2)]
      allocatePlannerImpl_result)

theorem single_shot_calls_return_fresh_instances_witness:
  "multi_query_disabled boost_lexical_cast_bool \<lparr>config = [''range'' \<mapsto> ''0.5'']\<rparr>
   \<and> multi_query_disabled boost_lexical_cast_bool
        \<lparr>config = [''multi_query_planning_enabled'' \<mapsto> ''0'', ''store_planner_data'' \<mapsto> ''1'']\<rparr>
   \<and> (\<exists>s1 s2.
         allocatePlanner boost_lexical_cast_bool Map.empty RRT 0
           ''arm[rrt]'' \<lparr>config = [''range'' \<mapsto> ''0.5'']\<rparr> MultiQueryPlannerAllocator = Inr (Addr 0, s1)
       \<and> allocatePlanner boost_lexical_cast_bool Map.empty RRT 0
           ''arm[rrt]''
           \<lparr>config = [''multi_query_planning_enabled'' \<mapsto> ''0'', ''store_planner_data'' \<mapsto> ''1'']\<rparr>
           s1 = Inr (Addr 1, s2)
       \<and> planners s2 = Map.empty \<and> planner_data_storage_paths s2 = [])"
proof -
  let ?spec1 = "\<lparr>config = [''range'' \<mapsto> ''0.5'']\<rparr>"
  let ?spec2 = "\<lparr>config = [''multi_query_planning_enabled'' \<mapsto> ''0'', ''store_planner_data'' \<mapsto> ''1'']\<rparr>"
  have h1: "multi_query_disabled boost_lexical_cast_bool ?spec1"
    by (simp add: multi_query_disabled_def)
  have h2: "multi_query_disabled boost_lexical_cast_bool ?spec2"
    by (simp add: multi_query_disabled_def boost_lexical_cast_bool_def)
  from single_shot_calls_return_fresh_instances [OF h1 h2,
      of Map.empty "RRT" 0 "''arm[rrt]''" MultiQueryPlannerAllocator
         Map.empty "RRT" 0]
  obtain p1 s1 p2 s2 where r:
    "allocatePlanner boost_lexical_cast_bool Map.empty RRT 0
       ''arm[rrt]'' ?spec1 MultiQueryPlannerAllocator = Inr (p1, s1)"
    "allocatePlanner boost_lexical_cast_bool Map.empty RRT 0
       ''arm[rrt]'' ?spec2 s1 = Inr (p2, s2)"
    "p1 = Addr (length (heap MultiQueryPlannerAllocator))" "p2 = Addr (length (heap s1))"
    "length (heap s1) = Suc (length (heap MultiQueryPlannerAllocator))"
    "planners s1 = planners MultiQueryPlannerAllocator"
    "planner_data_storage_paths s1 = planner_data_storage_paths MultiQueryPlannerAllocator"
    "planners s2 = planners s1" "planner_data_storage_paths s2 = planner_data_storage_paths s1"
    by blast
  have "p1 = Addr 0" "p2 = Addr 1" "planners s2 = Map.empty" "planner_data_storage_paths s2 = []"
    using r(3-9) by (simp_all add: MultiQueryPlannerAllocator_def)
  with r(1,2) h1 h2 show ?thesis by blast
qed

subsection \<open>Entries of the planner map are permanent\<close>

text \<open>
  C6. Over any sequence of calls of \<open>allocatePlanner\<close>, those that throw included, a name
  that has an entry in \<^verbatim>\<open>planners_\<close> keeps that entry with the same pointer: no call
  removes or replaces it, so the entry of a name is created at most once.
\<close>

theorem cached_entry_is_never_replaced:
  assumes "planners s name = Some p"
  shows "planners (calls lexical_cast rs s) name = Some p"
  using assms
  by (induction rs arbitrary: s) (simp_all add: call_keeps_entry)

theorem cached_entry_is_never_replaced_witness:
  "planners (calls boost_lexical_cast_bool
       [\<lparr>req_files = Map.empty, req_type = PRM, req_si = 0,
         req_name = ''arm[prm]'', req_spec = \<lparr>config = [''multi_query_planning_enabled'' \<mapsto> ''1'']\<rparr>\<rparr>]
       MultiQueryPlannerAllocator) ''arm[prm]'' = Some (Addr 0)
   \<and> planners (calls boost_lexical_cast_bool
       [\<lparr>req_files = Map.empty, req_type = RRT, req_si = 1,
         req_name = ''arm[prm]'',
         req_spec = \<lparr>config = [''multi_query_planning_enabled'' \<mapsto> ''1'', ''load_planner_data'' \<mapsto> ''1'']\<rparr>\<rparr>,
        \<lparr>req_files = Map.empty, req_type = RRT, req_si = 2,
         req_name = ''arm[prm]'', req_spec = \<lparr>config = Map.empty\<rparr>\<rparr>,
        \<lparr>req_files = Map.empty, req_type = RRT, req_si = 3,
         req_name = ''arm[rrt]'', req_spec = \<lparr>config = [''multi_query_planning_enabled'' \<mapsto> ''true'']\<rparr>\<rparr>]
       (calls boost_lexical_cast_bool
         [\<lparr>req_files = Map.empty, req_type = PRM, req_si = 0,
           req_name = ''arm[prm]'', req_spec = \<lparr>config = [''multi_query_planning_enabled'' \<mapsto> ''1'']\<rparr>\<rparr>]
         MultiQueryPlannerAllocator)) ''arm[prm]'' = Some (Addr 0)"
proof -
  let ?s = "calls boost_lexical_cast_bool
       [\<lparr>req_files = Map.empty, req_type = PRM, req_si = 0,
         req_name = ''arm[prm]'', req_spec = \<lparr>config = [''multi_query_planning_enabled'' \<mapsto> ''1'']\<rparr>\<rparr>]
       MultiQueryPlannerAllocator"
  have h: "planners ?s ''arm[prm]'' = Some (Addr 0)"
    by (simp add: evaluate)
  from cached_entry_is_never_replaced [OF h] h show ?thesis by blast
qed

subsection \<open>A failed load\<close>

text \<open>
  C5. A call whose \<^verbatim>\<open>load_planner_data\<close> converts to true, for a name that has no cached
  instance and with a path from which nothing deserialises, returns when the other
  boolean options it carries convert: the result is a planner newly put on the heap,
  with its problem definition attached, set up, and with an empty exploration graph. The
  failed load raises nothing. The planner data are empty after the failed load; what is
  assumed of \<^verbatim>\<open>allocatePersistingPlanner\<close> is that a planner it constructs from them holds
  them.
\<close>

theorem failed_load_gives_unseeded_instance:
  assumes "parsable lexical_cast spec ''multi_query_planning_enabled''"
    and "parsable lexical_cast spec ''store_planner_data''"
    and "option_is_true lexical_cast spec ''load_planner_data''"
    and "files (planner_data_path spec) = None"
    and "planners s name = None"
    and "seeded_with T (new_PlannerData si)"
  shows "\<exists>pl s'. allocatePlanner lexical_cast files T si name spec s = Inr (Addr (length (heap s)), s')
           \<and> heap s' = heap s @ [pl] \<and> is_setup pl \<and> problem_definition pl \<and> roadmap pl = []"
proof (cases "multi_query_disabled lexical_cast spec")
  case True
  then show ?thesis
    by (simp add: allocatePlanner_disabled allocatePlannerImpl_result built_roadmap)
next
  case False
  with assms(1) have en: "multi_query_enabled lexical_cast spec"
    using flag_cases [of lexical_cast spec] by simp
  have "parsable lexical_cast spec ''load_planner_data''"
    using assms(3) by (auto simp: parsable_def option_is_true_def split: option.splits)
  from allocatePlanner_fresh [OF en assms(5) this assms(2)] assms(4,6)
  show ?thesis
    by (simp add: built_roadmap failed_load seeded_with_def new_PlannerData_def split: option.splits)
qed

theorem failed_load_gives_unseeded_instance_witness:
  "parsable boost_lexical_cast_bool
     \<lparr>config = [''multi_query_planning_enabled'' \<mapsto> ''1'', ''load_planner_data'' \<mapsto> ''1'',
                ''planner_data_path'' \<mapsto> ''/nonexistent/prm.dat'']\<rparr> ''multi_query_planning_enabled''
   \<and> parsable boost_lexical_cast_bool
     \<lparr>config = [''multi_query_planning_enabled'' \<mapsto> ''1'', ''load_planner_data'' \<mapsto> ''1'',
                ''planner_data_path'' \<mapsto> ''/nonexistent/prm.dat'']\<rparr> ''store_planner_data''
   \<and> option_is_true boost_lexical_cast_bool
     \<lparr>config = [''multi_query_planning_enabled'' \<mapsto> ''1'', ''load_planner_data'' \<mapsto> ''1'',
                ''planner_data_path'' \<mapsto> ''/nonexistent/prm.dat'']\<rparr> ''load_planner_data''
   \<and> [''/tmp/prm.dat'' \<mapsto> [1, 2, 3::nat]]
       (planner_data_path \<lparr>config = [''multi_query_planning_enabled'' \<mapsto> ''1'', ''load_planner_data'' \<mapsto> ''1'',
                ''planner_data_path'' \<mapsto> ''/nonexistent/prm.dat'']\<rparr>) = None
   \<and> planners MultiQueryPlannerAllocator ''arm[prm]'' = None
   \<and> seeded_with PRM (new_PlannerData 0)
   \<and> (\<exists>pl s'. allocatePlanner boost_lexical_cast_bool [''/tmp/prm.dat'' \<mapsto> [1, 2, 3]]
                 PRM 0 ''arm[prm]''
                 \<lparr>config = [''multi_query_planning_enabled'' \<mapsto> ''1'', ''load_planner_data'' \<mapsto> ''1'',
                            ''planner_data_path'' \<mapsto> ''/nonexistent/prm.dat'']\<rparr>
                 MultiQueryPlannerAllocator = Inr (Addr 0, s')
              \<and> heap s' = [pl] \<and> is_setup pl \<and> problem_definition pl \<and> roadmap pl = [])"
proof -
  let ?spec = "\<lparr>config = [''multi_query_planning_enabled'' \<mapsto> ''1'', ''load_planner_data'' \<mapsto> ''1'',
                ''planner_data_path'' \<mapsto> ''/nonexistent/prm.dat'']\<rparr>"
  have h1: "parsable boost_lexical_cast_bool ?spec ''multi_query_planning_enabled''"
    by (simp add: parsable_def boost_lexical_cast_bool_def)
  have h2: "parsable boost_lexical_cast_bool ?spec ''store_planner_data''"
    by (simp add: parsable_def)
  have h3: "option_is_true boost_lexical_cast_bool ?spec ''load_planner_data''"
    by (simp add: option_is_true_def boost_lexical_cast_bool_def)
  have h4: "[''/tmp/prm.dat'' \<mapsto> [1, 2, 3::nat]] (planner_data_path ?spec) = None"
    by (simp add: planner_data_path_def)
  have h5: "planners MultiQueryPlannerAllocator ''arm[prm]'' = None"
    by (simp add: MultiQueryPlannerAllocator_def)
  have h6: "seeded_with PRM (new_PlannerData 0)"
    by (simp add: seeded_with_def PRM_def new_PlannerData_def)
  from failed_load_gives_unseeded_instance
      [where files = "[''/tmp/prm.dat'' \<mapsto> [1, 2, 3]]" and T = "PRM"
         and si = 0, OF h1 h2 h3 h4 h5 h6]
  have "\<exists>pl s'. allocatePlanner boost_lexical_cast_bool [''/tmp/prm.dat'' \<mapsto> [1, 2, 3]]
                 PRM 0 ''arm[prm]'' ?spec
                 MultiQueryPlannerAllocator = Inr (Addr 0, s')
              \<and> heap s' = [pl] \<and> is_setup pl \<and> problem_definition pl \<and> roadmap pl = []"
    by (simp add: MultiQueryPlannerAllocator_def)
  with h1 h2 h3 h4 h5 h6 show ?thesis by blast
qed

subsection \<open>Options that do not convert\<close>

text \<open>
  C9, as the code has it. A call of \<open>allocatePlanner\<close> throws exactly when a boolean option
  that the call reads is present with a value the conversion rejects, and what it throws
  is \<^verbatim>\<open>bad_lexical_cast\<close>: \<^verbatim>\<open>multi_query_planning_enabled\<close> is read by every call;
  \<^verbatim>\<open>load_planner_data\<close> and \<^verbatim>\<open>store_planner_data\<close> are read only when multi-query planning
  is enabled and the name has no cached instance.
\<close>

theorem allocatePlanner_throws_iff:
  "allocatePlanner lexical_cast files T si new_name spec s = Inl e \<longleftrightarrow>
     e = Bad_lexical_cast \<and>
     (\<not> parsable lexical_cast spec ''multi_query_planning_enabled''
      \<or> (multi_query_enabled lexical_cast spec \<and> planners s new_name = None
          \<and> (\<not> parsable lexical_cast spec ''load_planner_data''
              \<or> \<not> parsable lexical_cast spec ''store_planner_data'')))"
proof -
  consider (bad) "\<not> parsable lexical_cast spec ''multi_query_planning_enabled''"
    | (off) "multi_query_disabled lexical_cast spec"
    | (hit) p where "multi_query_enabled lexical_cast spec" "planners s new_name = Some p"
    | (miss) "multi_query_enabled lexical_cast spec" "planners s new_name = None"
    using flag_cases [of lexical_cast spec] by (cases "planners s new_name") auto
  then show ?thesis
  proof cases
    case bad
    then show ?thesis by (auto simp: allocatePlanner_bad_flag)
  next
    case off
    then show ?thesis
      by (simp add: allocatePlanner_disabled disabled_parsable disabled_not_enabled)
  next
    case hit
    then show ?thesis by (simp add: allocatePlanner_cached enabled_parsable)
  next
    case miss
    show ?thesis
    proof (cases "parsable lexical_cast spec ''load_planner_data''
                  \<and> parsable lexical_cast spec ''store_planner_data''")
      case True
      with miss show ?thesis by (simp add: allocatePlanner_fresh enabled_parsable)
    next
      case False
      then have "\<not> parsable lexical_cast spec ''load_planner_data''
         \<or> \<not> parsable lexical_cast spec ''store_planner_data''" by simp
      from allocatePlanner_bad_option [OF miss this] False miss show ?thesis by auto
    qed
  qed
qed

theorem allocatePlanner_throws_iff_witness:
  "multi_query_enabled boost_lexical_cast_bool
     \<lparr>config = [''multi_query_planning_enabled'' \<mapsto> ''1'', ''store_planner_data'' \<mapsto> ''true'']\<rparr>
   \<and> \<not> parsable boost_lexical_cast_bool
     \<lparr>config = [''multi_query_planning_enabled'' \<mapsto> ''1'', ''store_planner_data'' \<mapsto> ''true'']\<rparr>
     ''store_planner_data''
   \<and> allocatePlanner boost_lexical_cast_bool Map.empty RRT 0
       ''arm[rrt_fast]''
       \<lparr>config = [''multi_query_planning_enabled'' \<mapsto> ''1'', ''store_planner_data'' \<mapsto> ''true'']\<rparr>
       MultiQueryPlannerAllocator = Inl Bad_lexical_cast"
proof -
  let ?spec = "\<lparr>config = [''multi_query_planning_enabled'' \<mapsto> ''1'', ''store_planner_data'' \<mapsto> ''true'']\<rparr>"
  have h1: "multi_query_enabled boost_lexical_cast_bool ?spec"
    by (simp add: multi_query_enabled_def boost_lexical_cast_bool_def)
  have h2: "\<not> parsable boost_lexical_cast_bool ?spec ''store_planner_data''"
    by (simp add: parsable_def boost_lexical_cast_bool_def)
  have h3: "planners MultiQueryPlannerAllocator ''arm[rrt_fast]'' = None"
    by (simp add: MultiQueryPlannerAllocator_def)
  from h1 h2 h3
  have "allocatePlanner boost_lexical_cast_bool Map.empty RRT 0
       ''arm[rrt_fast]'' ?spec MultiQueryPlannerAllocator = Inl Bad_lexical_cast"
    by (simp add: allocatePlanner_throws_iff)
  with h1 h2 show ?thesis by blast
qed

text \<open>
  Two calls on a new allocator, with the conversion of Boost. With multi-query planning
  absent, \<^verbatim>\<open>load_planner_data\<close> is not read and its value \<^verbatim>\<open>maybe\<close>, which does not
  convert, is no obstacle. The value \<^verbatim>\<open>true\<close> does not convert either, and the call that
  carries it for \<^verbatim>\<open>multi_query_planning_enabled\<close> throws.
\<close>

theorem unread_option_is_not_checked:
  "boost_lexical_cast_bool ''maybe'' = None
   \<and> allocatePlanner boost_lexical_cast_bool Map.empty RRT 0
       ''arm[rrt]'' \<lparr>config = [''load_planner_data'' \<mapsto> ''maybe'']\<rparr> MultiQueryPlannerAllocator =
     Inr (Addr 0,
          \<lparr>heap = [\<lparr>space_information = 0, planner_name = ''arm[rrt]'',
                    set_params = [''load_planner_data'' \<mapsto> ''maybe''],
                    problem_definition = True, is_setup = True, roadmap = []\<rparr>],
           planners = Map.empty, planner_data_storage_paths = []\<rparr>)
   \<and> allocatePlanner boost_lexical_cast_bool Map.empty RRT 0
       ''arm[rrt_fast]''
       \<lparr>config = [''multi_query_planning_enabled'' \<mapsto> ''true'', ''store_planner_data'' \<mapsto> ''true'',
                  ''planner_data_path'' \<mapsto> ''/tmp/rrt_fast.dat'']\<rparr>
       MultiQueryPlannerAllocator = Inl Bad_lexical_cast"
  by (simp add: evaluate)

subsection \<open>The options handed to the planner\<close>

text \<open>
  C2. The call below carries the four reserved options. The code erases each of them from
  its working copy of the configuration, and then hands the planner the configuration of
  the specification itself: all four reach \<^verbatim>\<open>setParams\<close>.
\<close>

theorem reserved_options_reach_setParams:
  "allocatePlanner boost_lexical_cast_bool Map.empty RRT 0
     ''arm[rrt_fast]''
     \<lparr>config = [''multi_query_planning_enabled'' \<mapsto> ''1'', ''load_planner_data'' \<mapsto> ''0'',
                ''store_planner_data'' \<mapsto> ''0'', ''planner_data_path'' \<mapsto> ''/tmp/rrt_fast.dat'',
                ''range'' \<mapsto> ''0.5'']\<rparr>
     MultiQueryPlannerAllocator =
   Inr (Addr 0,
        \<lparr>heap = [\<lparr>space_information = 0, planner_name = ''arm[rrt_fast]'',
                  set_params = [''multi_query_planning_enabled'' \<mapsto> ''1'', ''load_planner_data'' \<mapsto> ''0'',
                                ''store_planner_data'' \<mapsto> ''0'',
                                ''planner_data_path'' \<mapsto> ''/tmp/rrt_fast.dat'', ''range'' \<mapsto> ''0.5''],
                  problem_definition = True, is_setup = True, roadmap = []\<rparr>],
         planners = [''arm[rrt_fast]'' \<mapsto> Addr 0], planner_data_storage_paths = []\<rparr>)"
  by (simp add: evaluate)

subsection \<open>The invariant\<close>

lemma set_map_assign: "set (map_assign k v es) \<subseteq> insert (k, v) (set es)"
  by (induction es) (auto split: if_splits)

lemma consistent_new: "consistent MultiQueryPlannerAllocator"
  by (simp add: consistent_def MultiQueryPlannerAllocator_def)

lemma consistent_heap_grows:
  assumes "consistent s"
  shows "consistent (s\<lparr>heap := heap s @ [pl]\<rparr>)"
  unfolding consistent_def
proof (intro conjI allI impI ballI)
  fix name q
  assume "planners (s\<lparr>heap := heap s @ [pl]\<rparr>) name = Some q"
  then have "planners s name = Some q" by simp
  with assms obtain a where "q = Addr a" "a < length (heap s)" "is_setup (heap s ! a)"
    by (auto simp: consistent_def)
  then show "\<exists>a. q = Addr a \<and> a < length (heap (s\<lparr>heap := heap s @ [pl]\<rparr>))
                \<and> is_setup (heap (s\<lparr>heap := heap s @ [pl]\<rparr>) ! a)"
    by (simp add: nth_append)
next
  fix entry
  assume "entry \<in> set (planner_data_storage_paths (s\<lparr>heap := heap s @ [pl]\<rparr>))"
  with assms show "planners (s\<lparr>heap := heap s @ [pl]\<rparr>) (fst entry) \<noteq> None"
    by (simp add: consistent_def)
qed

lemma consistent_insert:
  assumes "consistent s" and "is_setup pl" and "set paths \<subseteq> insert (n, path) (set (planner_data_storage_paths s))"
  shows "consistent (s\<lparr>heap := heap s @ [pl], planner_data_storage_paths := paths,
                       planners := (planners s)(n \<mapsto> Addr (length (heap s)))\<rparr>)"
    (is "consistent ?s'")
  unfolding consistent_def
proof (intro conjI allI impI ballI)
  fix name q
  assume q: "planners ?s' name = Some q"
  show "\<exists>a. q = Addr a \<and> a < length (heap ?s') \<and> is_setup (heap ?s' ! a)"
  proof (cases "name = n")
    case True
    with q have "q = Addr (length (heap s))" by simp
    with assms(2) show ?thesis by simp
  next
    case False
    with q have "planners s name = Some q" by simp
    with assms(1) obtain a where "q = Addr a" "a < length (heap s)" "is_setup (heap s ! a)"
      by (auto simp: consistent_def)
    then show ?thesis by (simp add: nth_append)
  qed
next
  fix entry
  assume "entry \<in> set (planner_data_storage_paths ?s')"
  with assms(3) have "entry = (n, path) \<or> entry \<in> set (planner_data_storage_paths s)"
    by auto
  with assms(1) show "planners ?s' (fst entry) \<noteq> None"
    by (auto simp: consistent_def)
qed

lemma consistent_allocatePlanner:
  assumes "consistent s" and "allocatePlanner lexical_cast files T si n spec s = Inr (p, s')"
  shows "consistent s'"
  using allocatePlanner_cases [OF assms(2)]
proof (elim disjE conjE exE)
  assume "s' = s"
  with assms(1) show ?thesis by simp
next
  fix l st path s1
  assume "allocatePlannerImpl files T si n spec l st path s = (p, s1)"
    and "s' = s1\<lparr>planners := (planners s1)(n \<mapsto> p)\<rparr>"
  then have "s' = s\<lparr>heap := heap s @ [built files T si n spec l path],
        planner_data_storage_paths :=
          (if st then map_assign n path (planner_data_storage_paths s) else planner_data_storage_paths s),
        planners := (planners s)(n \<mapsto> Addr (length (heap s)))\<rparr>"
    by (auto simp: allocatePlannerImpl_result)
  moreover have "set (if st then map_assign n path (planner_data_storage_paths s)
                      else planner_data_storage_paths s)
                 \<subseteq> insert (n, path) (set (planner_data_storage_paths s))"
    using set_map_assign [of n path "planner_data_storage_paths s"] by auto
  ultimately show ?thesis
    using consistent_insert [OF assms(1) built_is_setup] by simp
next
  assume "allocatePlannerImpl files T si n spec False False [] s = (p, s')"
  then have "s' = s\<lparr>heap := heap s @ [built files T si n spec False []]\<rparr>"
    by (auto simp: allocatePlannerImpl_result)
  with consistent_heap_grows [OF assms(1)] show ?thesis by simp
qed

lemma consistent_call:
  assumes "consistent s"
  shows "consistent (call lexical_cast r s)"
proof (cases "allocatePlanner lexical_cast (req_files r) (req_type r) (req_si r) (req_name r) (req_spec r) s")
  case (Inl e)
  then show ?thesis using assms by (simp add: call_def)
next
  case (Inr result)
  obtain q s' where result: "result = (q, s')" by (cases result)
  from consistent_allocatePlanner [OF assms Inr [unfolded result]]
  show ?thesis using Inr result by (simp add: call_def)
qed

lemma consistent_calls: "consistent s \<Longrightarrow> consistent (calls lexical_cast rs s)"
  by (induction rs arbitrary: s) (simp_all add: consistent_call)


subsection \<open>No call returns a null pointer\<close>

text \<open>
  C10. On an allocator reached from a new one by any sequence of calls, every call of
  \<open>allocatePlanner\<close> that returns gives a pointer that is not null: it is the address of a
  planner on the heap, and that planner has been set up. Where
  \<^verbatim>\<open>allocatePersistingPlanner\<close> gives no planner for the loaded data, \<open>allocatePlannerImpl\<close>
  with \<^verbatim>\<open>load_planner_data\<close> true does what it does with \<^verbatim>\<open>load_planner_data\<close> false: it
  constructs \<^verbatim>\<open>new T(si)\<close>.
\<close>

theorem allocatePlanner_returns_set_up_instance:
  assumes "allocatePlanner lexical_cast files T si name spec
             (calls lexical_cast rs MultiQueryPlannerAllocator) = Inr (p, s')"
  shows "(\<exists>a. p = Addr a \<and> a < length (heap s') \<and> is_setup (heap s' ! a))
       \<and> (allocatePersistingPlanner T (storage_load files path (new_PlannerData si)) = None \<longrightarrow>
            allocatePlannerImpl files T si name spec True store_planner_data path s =
            allocatePlannerImpl files T si name spec False store_planner_data path s)"
proof
  let ?s = "calls lexical_cast rs MultiQueryPlannerAllocator"
  have c: "consistent ?s" by (simp add: consistent_calls consistent_new)
  from allocatePlanner_cases [OF assms]
  show "\<exists>a. p = Addr a \<and> a < length (heap s') \<and> is_setup (heap s' ! a)"
  proof (elim disjE conjE exE)
    assume "planners ?s name = Some p" "s' = ?s"
    with c show ?thesis by (auto simp: consistent_def)
  next
    fix l st path s1
    assume "allocatePlannerImpl files T si name spec l st path ?s = (p, s1)"
      "s' = s1\<lparr>planners := (planners s1)(name \<mapsto> p)\<rparr>"
    then show ?thesis by (auto simp: allocatePlannerImpl_result)
  next
    assume "allocatePlannerImpl files T si name spec False False [] ?s = (p, s')"
    then show ?thesis by (auto simp: allocatePlannerImpl_result)
  qed
next
  show "allocatePersistingPlanner T (storage_load files path (new_PlannerData si)) = None \<longrightarrow>
            allocatePlannerImpl files T si name spec True store_planner_data path s =
            allocatePlannerImpl files T si name spec False store_planner_data path s"
    by (simp add: allocatePlannerImpl_def)
qed

theorem allocatePlanner_returns_set_up_instance_witness:
  "\<exists>s'. allocatePlanner boost_lexical_cast_bool Map.empty RRT 1
       ''arm[rrt]''
       \<lparr>config = [''multi_query_planning_enabled'' \<mapsto> ''1'', ''load_planner_data'' \<mapsto> ''1'',
                  ''planner_data_path'' \<mapsto> ''/tmp/rrt.dat'']\<rparr>
       (calls boost_lexical_cast_bool
          [\<lparr>req_files = Map.empty, req_type = PRM, req_si = 0,
            req_name = ''arm[prm]'', req_spec = \<lparr>config = [''multi_query_planning_enabled'' \<mapsto> ''1'']\<rparr>\<rparr>]
          MultiQueryPlannerAllocator) = Inr (Addr 1, s')
     \<and> 1 < length (heap s') \<and> is_setup (heap s' ! 1)"
proof -
  obtain s' where r: "allocatePlanner boost_lexical_cast_bool Map.empty RRT 1
       ''arm[rrt]''
       \<lparr>config = [''multi_query_planning_enabled'' \<mapsto> ''1'', ''load_planner_data'' \<mapsto> ''1'',
                  ''planner_data_path'' \<mapsto> ''/tmp/rrt.dat'']\<rparr>
       (calls boost_lexical_cast_bool
          [\<lparr>req_files = Map.empty, req_type = PRM, req_si = 0,
            req_name = ''arm[prm]'', req_spec = \<lparr>config = [''multi_query_planning_enabled'' \<mapsto> ''1'']\<rparr>\<rparr>]
          MultiQueryPlannerAllocator) = Inr (Addr 1, s')"
    by (simp add: evaluate)
  from allocatePlanner_returns_set_up_instance [OF r] r show ?thesis by auto
qed

subsection \<open>The flush at destruction\<close>

lemma map_assign_member: "(k, v) \<in> set (map_assign k v es)"
  by (induction es) auto

lemma map_assign_keeps:
  assumes "k \<notin> fst ` set es"
  shows "set es \<subseteq> set (map_assign k v es)"
  using assms by (induction es) auto

lemma store_planner_data_registers:
  assumes "multi_query_enabled lexical_cast spec" and "planners s name = None"
    and "parsable lexical_cast spec ''load_planner_data''"
    and "option_is_true lexical_cast spec ''store_planner_data''"
    and "allocatePlanner lexical_cast files T si name spec s = Inr (p, s')"
  shows "(name, planner_data_path spec) \<in> set (planner_data_storage_paths s')"
proof -
  have "parsable lexical_cast spec ''store_planner_data''"
    using assms(4) by (auto simp: parsable_def option_is_true_def split: option.splits)
  from allocatePlanner_fresh [OF assms(1,2,3) this, of files T si] assms(4,5)
  show ?thesis by (auto simp: map_assign_member)
qed

lemma registration_is_kept:
  assumes "consistent s" and "entry \<in> set (planner_data_storage_paths s)"
  shows "entry \<in> set (planner_data_storage_paths (calls lexical_cast rs s))"
  using assms
proof (induction rs arbitrary: s)
  case Nil
  then show ?case by simp
next
  case (Cons r rs)
  have "entry \<in> set (planner_data_storage_paths (call lexical_cast r s))"
  proof (cases "allocatePlanner lexical_cast (req_files r) (req_type r) (req_si r) (req_name r) (req_spec r) s")
    case (Inl e)
    with Cons.prems(2) show ?thesis by (simp add: call_def)
  next
    case (Inr result)
    obtain q s' where result: "result = (q, s')" by (cases result)
    from allocatePlanner_cases [OF Inr [unfolded result]]
    have "entry \<in> set (planner_data_storage_paths s')"
    proof (elim disjE conjE exE)
      assume "s' = s"
      with Cons.prems(2) show ?thesis by simp
    next
      fix l st path s1
      assume fresh: "planners s (req_name r) = None"
        and impl: "allocatePlannerImpl (req_files r) (req_type r) (req_si r) (req_name r) (req_spec r) l st path s
                     = (q, s1)"
        and s': "s' = s1\<lparr>planners := (planners s1)(req_name r \<mapsto> q)\<rparr>"
      from Cons.prems(1) fresh have "req_name r \<notin> fst ` set (planner_data_storage_paths s)"
        by (auto simp: consistent_def)
      from map_assign_keeps [OF this, of path] Cons.prems(2) impl s'
      show ?thesis by (auto simp: allocatePlannerImpl_result)
    next
      assume "allocatePlannerImpl (req_files r) (req_type r) (req_si r) (req_name r) (req_spec r)
                False False [] s = (q, s')"
      with Cons.prems(2) show ?thesis by (auto simp: allocatePlannerImpl_result)
    qed
    with Inr result show ?thesis by (simp add: call_def)
  qed
  with Cons.IH [OF consistent_call [OF Cons.prems(1)]] show ?case by simp
qed

lemma store_entries_all:
  assumes "\<forall>entry \<in> set es. \<exists>a. planners s (fst entry) = Some (Addr a) \<and> a < length (heap s)"
  shows "\<exists>done. store_entries store s es = Inr done
           \<and> list_all2 (\<lambda>entry c. \<exists>a. planners s (fst entry) = Some (Addr a) \<and> a < length (heap s)
                 \<and> stored_data c = \<lparr>pd_si = space_information (heap s ! a),
                                     pd_vertices = roadmap (heap s ! a)\<rparr>
                 \<and> stored_path c = snd entry
                 \<and> stored_ok c = store (stored_data c) (snd entry)) es done"
  using assms
proof (induction es)
  case Nil
  show ?case by simp
next
  case (Cons entry es)
  obtain name path where entry: "entry = (name, path)" by (cases entry)
  from Cons.prems obtain a where a: "planners s name = Some (Addr a)" "a < length (heap s)"
    by (auto simp: entry)
  from Cons obtain rest where rest: "store_entries store s es = Inr rest"
    "list_all2 (\<lambda>entry c. \<exists>a. planners s (fst entry) = Some (Addr a) \<and> a < length (heap s)
                 \<and> stored_data c = \<lparr>pd_si = space_information (heap s ! a),
                                     pd_vertices = roadmap (heap s ! a)\<rparr>
                 \<and> stored_path c = snd entry
                 \<and> stored_ok c = store (stored_data c) (snd entry)) es rest"
    by auto
  show ?case
    using a rest by (simp add: entry deref_def new_PlannerData_def Let_def)
qed

text \<open>
  C4. On an allocator reached from a new one by any sequence of calls, the destructor
  runs to its end whatever the store operations report, and performs one store operation
  for each entry of \<^verbatim>\<open>planner_data_storage_paths_\<close>, in the order of the entries: the data
  stored are the space information and the exploration graph that the planner cached
  under the entry's name holds at that time, and the path is the entry's path. An
  operation that reports a failure is followed by the operations for the remaining
  entries.
\<close>

theorem destructor_stores_every_registered_planner:
  assumes "s = calls lexical_cast rs MultiQueryPlannerAllocator"
  shows "\<exists>done. destructor store s = Inr done
           \<and> list_all2 (\<lambda>entry c. \<exists>a. planners s (fst entry) = Some (Addr a) \<and> a < length (heap s)
                 \<and> stored_data c = \<lparr>pd_si = space_information (heap s ! a),
                                     pd_vertices = roadmap (heap s ! a)\<rparr>
                 \<and> stored_path c = snd entry
                 \<and> stored_ok c = store (stored_data c) (snd entry))
               (planner_data_storage_paths s) done"
proof -
  have "consistent s"
    by (simp add: assms consistent_calls consistent_new)
  then have "\<forall>entry \<in> set (planner_data_storage_paths s).
               \<exists>a. planners s (fst entry) = Some (Addr a) \<and> a < length (heap s)"
    unfolding consistent_def by fastforce
  from store_entries_all [OF this] show ?thesis
    by (simp add: destructor_def)
qed


theorem destructor_stores_every_registered_planner_witness:
  "\<exists>done. destructor (\<lambda>data path. path = ''/tmp/rrt.dat'')
       (calls boost_lexical_cast_bool
          [\<lparr>req_files = [''/ro/prm.dat'' \<mapsto> [1, 2, 3]], req_type = PRM,
            req_si = 0, req_name = ''arm[prm]'',
            req_spec = \<lparr>config = [''multi_query_planning_enabled'' \<mapsto> ''1'', ''load_planner_data'' \<mapsto> ''1'',
                                  ''store_planner_data'' \<mapsto> ''1'', ''planner_data_path'' \<mapsto> ''/ro/prm.dat'']\<rparr>\<rparr>,
           \<lparr>req_files = Map.empty, req_type = RRT,
            req_si = 1, req_name = ''arm[rrt]'',
            req_spec = \<lparr>config = [''multi_query_planning_enabled'' \<mapsto> ''1'', ''store_planner_data'' \<mapsto> ''1'',
                                  ''planner_data_path'' \<mapsto> ''/tmp/rrt.dat'']\<rparr>\<rparr>]
          MultiQueryPlannerAllocator) = Inr done
     \<and> map stored_path done = [''/ro/prm.dat'', ''/tmp/rrt.dat'']
     \<and> map stored_ok done = [False, True]
     \<and> map stored_data done = [\<lparr>pd_si = 0, pd_vertices = [1, 2, 3]\<rparr>, \<lparr>pd_si = 1, pd_vertices = []\<rparr>]"
proof -
  let ?rs = "[\<lparr>req_files = [''/ro/prm.dat'' \<mapsto> [1, 2, 3]], req_type = PRM,
            req_si = 0, req_name = ''arm[prm]'',
            req_spec = \<lparr>config = [''multi_query_planning_enabled'' \<mapsto> ''1'', ''load_planner_data'' \<mapsto> ''1'',
                                  ''store_planner_data'' \<mapsto> ''1'', ''planner_data_path'' \<mapsto> ''/ro/prm.dat'']\<rparr>\<rparr>,
           \<lparr>req_files = Map.empty, req_type = RRT,
            req_si = 1, req_name = ''arm[rrt]'',
            req_spec = \<lparr>config = [''multi_query_planning_enabled'' \<mapsto> ''1'', ''store_planner_data'' \<mapsto> ''1'',
                                  ''planner_data_path'' \<mapsto> ''/tmp/rrt.dat'']\<rparr>\<rparr>]"
  define s where "s = calls boost_lexical_cast_bool ?rs MultiQueryPlannerAllocator"
  have paths: "planner_data_storage_paths s = [(''arm[prm]'', ''/ro/prm.dat''), (''arm[rrt]'', ''/tmp/rrt.dat'')]"
    and prm: "planners s ''arm[prm]'' = Some (Addr 0)"
    and rrt: "planners s ''arm[rrt]'' = Some (Addr 1)"
    and h0: "space_information (heap s ! 0) = 0" "roadmap (heap s ! 0) = [1, 2, 3]"
    and h1: "space_information (heap s ! Suc 0) = Suc 0" "roadmap (heap s ! Suc 0) = []"
    by (simp_all add: s_def evaluate)
  from destructor_stores_every_registered_planner [OF s_def, of "\<lambda>data path. path = ''/tmp/rrt.dat''"]
  have "\<exists>done. destructor (\<lambda>data path. path = ''/tmp/rrt.dat'') s = Inr done
     \<and> map stored_path done = [''/ro/prm.dat'', ''/tmp/rrt.dat'']
     \<and> map stored_ok done = [False, True]
     \<and> map stored_data done = [\<lparr>pd_si = 0, pd_vertices = [1, 2, 3]\<rparr>, \<lparr>pd_si = 1, pd_vertices = []\<rparr>]"
    by (auto simp: paths prm rrt h0 h1 list_all2_Cons1)
  then show ?thesis by (simp only: s_def)
qed


section \<open>Properties of the planning context manager\<close>

lemma cache_valid_setPlannerConfigurations: "cache_valid (setPlannerConfigurations pconfig m)"
  by (simp add: cache_valid_def setPlannerConfigurations_def)

lemma cache_valid_getPlanningContext:
  assumes "cache_valid m"
    and "getPlanningContext lexical_cast files select m config_name factory_type = Inr (c, m')"
  shows "cache_valid m' \<and> c < length (contexts m')"
proof -
  from assms(2) obtain pc where pc: "planner_configs m config_name = Some pc"
    by (auto simp: getPlanningContext_def split: option.splits)
  from assms(2) pc obtain rep_type where rep: "select (settings_group pc) factory_type = Inr rep_type"
    by (auto simp: getPlanningContext_def split: sum.splits)
  let ?key = "(settings_group pc, config_name, rep_type)"
  show ?thesis
  proof (cases "cached_contexts m ?key")
    case (Some c')
    with assms(2) pc rep have "c = c'" "m' = m"
      by (simp_all add: getPlanningContext_def)
    with Some assms(1) show ?thesis by (auto simp: cache_valid_def)
  next
    case None
    with assms(2) pc rep
    have c: "c = length (contexts m)"
      and len: "length (contexts m') = Suc (length (contexts m))"
      and cache: "cached_contexts m' = (cached_contexts m)(?key \<mapsto> length (contexts m))"
      by (auto simp: getPlanningContext_def split: option.splits sum.splits)
    have "cache_valid m'"
      unfolding cache_valid_def
    proof (intro allI impI)
      fix key d
      assume d: "cached_contexts m' key = Some d"
      show "d < length (contexts m')"
      proof (cases "key = ?key")
        case True
        with d cache len show ?thesis by simp
      next
        case False
        with d cache have "cached_contexts m key = Some d" by simp
        with assms(1) have "d < length (contexts m)"
          unfolding cache_valid_def by blast
        with len show ?thesis by simp
      qed
    qed
    with c len show ?thesis by simp
  qed
qed

text \<open>
  C7. When \<open>getPlanningContext\<close> has returned a context for a configuration name and a
  type hint, a second call with the same name and hint on the manager as the first call
  left it returns the same context address and changes nothing, whatever the storage
  holds by then.
\<close>

theorem getPlanningContext_twice_same_context:
  assumes "getPlanningContext lexical_cast files select m config_name factory_type = Inr (c, m1)"
  shows "getPlanningContext lexical_cast files' select m1 config_name factory_type = Inr (c, m1)"
proof -
  from assms obtain pc where pc: "planner_configs m config_name = Some pc"
    by (auto simp: getPlanningContext_def split: option.splits)
  from assms pc obtain rep_type where rep: "select (settings_group pc) factory_type = Inr rep_type"
    by (auto simp: getPlanningContext_def split: sum.splits)
  have "planner_configs m1 config_name = Some pc
      \<and> cached_contexts m1 (settings_group pc, config_name, rep_type) = Some c"
    using assms pc rep
    by (auto simp: getPlanningContext_def split: option.splits sum.splits)
  with rep show ?thesis
    by (simp add: getPlanningContext_def)
qed

theorem getPlanningContext_twice_same_context_witness:
  "\<exists>m1. getPlanningContext boost_lexical_cast_bool Map.empty (\<lambda>group hint. Inr ''JointModel'')
      arm_manager ''arm[rrt_fast]'' [] = Inr (0, m1)
    \<and> getPlanningContext boost_lexical_cast_bool [''/tmp/rrt_fast.dat'' \<mapsto> [1]] (\<lambda>group hint. Inr ''JointModel'')
      m1 ''arm[rrt_fast]'' [] = Inr (0, m1)"
proof -
  obtain m1 where first: "getPlanningContext boost_lexical_cast_bool Map.empty (\<lambda>group hint. Inr ''JointModel'')
      arm_manager ''arm[rrt_fast]'' [] = Inr (0, m1)"
    by (simp add: getPlanningContext_def arm_manager_def evaluate)
  from getPlanningContext_twice_same_context [OF first] first show ?thesis by blast
qed

text \<open>
  C8. \<open>setPlannerConfigurations\<close> puts the given configurations in place of the old ones
  and empties the cache. A call of \<open>getPlanningContext\<close> that returns after it gives a
  context that is newly built: its address is the next free one of the context heap, a
  new context has been appended there, and it is none of the contexts that were cached
  before.
\<close>

theorem setPlannerConfigurations_invalidates_cache:
  assumes "cache_valid m" and "cached_contexts m key = Some old"
    and "getPlanningContext lexical_cast files select (setPlannerConfigurations pconfig m)
           config_name factory_type = Inr (c, m')"
  shows "planner_configs (setPlannerConfigurations pconfig m) = pconfig
       \<and> cached_contexts (setPlannerConfigurations pconfig m) = Map.empty
       \<and> c = length (contexts m) \<and> c \<noteq> old
       \<and> (\<exists>ctx. contexts m' = contexts m @ [ctx])"
proof -
  from assms(1,2) have "old < length (contexts m)"
    unfolding cache_valid_def by blast
  with assms(3) show ?thesis
    by (auto simp: getPlanningContext_def setPlannerConfigurations_def split: option.splits sum.splits)
qed

theorem setPlannerConfigurations_invalidates_cache_witness:
  "\<exists>m1 m2. getPlanningContext boost_lexical_cast_bool Map.empty (\<lambda>group hint. Inr ''JointModel'')
      arm_manager ''arm[rrt_fast]'' [] = Inr (0, m1)
    \<and> cache_valid m1
    \<and> cached_contexts m1 (''arm'', ''arm[rrt_fast]'', ''JointModel'') = Some 0
    \<and> getPlanningContext boost_lexical_cast_bool Map.empty (\<lambda>group hint. Inr ''JointModel'')
        (setPlannerConfigurations
           [''arm[rrt_fast]'' \<mapsto>
              \<lparr>settings_group = ''arm'', settings_name = ''arm[rrt_fast]'',
               settings_config = [''type'' \<mapsto> ''geometric::RRT'', ''range'' \<mapsto> ''0.5'']\<rparr>] m1) ''arm[rrt_fast]'' [] = Inr (1, m2)
    \<and> length (contexts m2) = 2"
proof -
  define m1 where "m1 = snd (projr (getPlanningContext boost_lexical_cast_bool Map.empty (\<lambda>group hint. Inr ''JointModel'')
      arm_manager ''arm[rrt_fast]'' []))"
  have first: "getPlanningContext boost_lexical_cast_bool Map.empty (\<lambda>group hint. Inr ''JointModel'')
      arm_manager ''arm[rrt_fast]'' [] = Inr (0, m1)"
    and h2: "cached_contexts m1 (''arm'', ''arm[rrt_fast]'', ''JointModel'') = Some 0"
    and len: "length (contexts m1) = 1"
    by (simp_all add: m1_def getPlanningContext_def arm_manager_def evaluate)
  have "cache_valid arm_manager"
    by (simp add: cache_valid_def arm_manager_def)
  from cache_valid_getPlanningContext [OF this first] have h1: "cache_valid m1"
    by simp
  obtain c m2 where second: "getPlanningContext boost_lexical_cast_bool Map.empty (\<lambda>group hint. Inr ''JointModel'')
        (setPlannerConfigurations
           [''arm[rrt_fast]'' \<mapsto>
              \<lparr>settings_group = ''arm'', settings_name = ''arm[rrt_fast]'',
               settings_config = [''type'' \<mapsto> ''geometric::RRT'', ''range'' \<mapsto> ''0.5'']\<rparr>] m1) ''arm[rrt_fast]'' [] = Inr (c, m2)"
    by (simp add: m1_def getPlanningContext_def setPlannerConfigurations_def arm_manager_def evaluate)
  from setPlannerConfigurations_invalidates_cache [OF h1 h2 second] len
  have "c = 1" "length (contexts m2) = 2" by auto
  with first h1 h2 second show ?thesis by blast
qed


end
